theory Spec2Isabelle
  imports Main
begin

section \<open>Text primitives\<close>

text \<open>
  Python \<open>str\<close> values are modelled as \<open>string\<close>. The character classes and case
  mappings below are those of Python on the ASCII range (code points below 128), which
  is the range the embedding covers: a character above it is carried along unchanged
  and counts as neither whitespace nor a word character.
\<close>

definition is_space :: "char \<Rightarrow> bool" where
  "is_space c = (let n = (of_char c :: nat) in (9 \<le> n \<and> n \<le> 13) \<or> (28 \<le> n \<and> n \<le> 32))"

definition is_word :: "char \<Rightarrow> bool" where
  "is_word c = (let n = (of_char c :: nat) in
     (48 \<le> n \<and> n \<le> 57) \<or> (65 \<le> n \<and> n \<le> 90) \<or> n = 95 \<or> (97 \<le> n \<and> n \<le> 122))"

definition upper_char :: "char \<Rightarrow> char" where
  "upper_char c = (let n = (of_char c :: nat) in if 97 \<le> n \<and> n \<le> 122 then char_of (n - 32) else c)"

definition lower_char :: "char \<Rightarrow> char" where
  "lower_char c = (let n = (of_char c :: nat) in if 65 \<le> n \<and> n \<le> 90 then char_of (n + 32) else c)"

definition upper :: "string \<Rightarrow> string" where
  "upper s = map upper_char s"

definition lower :: "string \<Rightarrow> string" where
  "lower s = map lower_char s"

text \<open>\<open>s.strip()\<close>\<close>

definition strip :: "string \<Rightarrow> string" where
  "strip s = rev (dropWhile is_space (rev (dropWhile is_space s)))"

text \<open>\<open>s.startswith(p)\<close>\<close>

fun startswith :: "string \<Rightarrow> string \<Rightarrow> bool" where
  "startswith s [] = True"
| "startswith [] (p # ps) = False"
| "startswith (c # cs) (p # ps) = (if c = p then startswith cs ps else False)"

text \<open>The same test ignoring case, as a literal is matched under \<open>re.IGNORECASE\<close>.\<close>

fun startswith_ci :: "string \<Rightarrow> string \<Rightarrow> bool" where
  "startswith_ci s [] = True"
| "startswith_ci [] (p # ps) = False"
| "startswith_ci (c # cs) (p # ps) =
     (if lower_char c = lower_char p then startswith_ci cs ps else False)"

text \<open>\<open>p in s\<close> for strings\<close>

fun contains :: "string \<Rightarrow> string \<Rightarrow> bool" where
  "contains [] p = (p = [])"
| "contains (c # cs) p = (startswith (c # cs) p \<or> contains cs p)"

text \<open>\<open>s.split()\<close>: the maximal runs of non-whitespace characters, in order.\<close>

fun split_acc :: "string \<Rightarrow> string \<Rightarrow> string list" where
  "split_acc w [] = (if w = [] then [] else [w])"
| "split_acc w (c # cs) =
     (if is_space c then (if w = [] then split_acc [] cs else w # split_acc [] cs)
      else split_acc (w @ [c]) cs)"

definition split_ws :: "string \<Rightarrow> string list" where
  "split_ws s = split_acc [] s"

text \<open>\<open>sep.join(parts)\<close>\<close>

fun join :: "string \<Rightarrow> string list \<Rightarrow> string" where
  "join sep [] = []"
| "join sep [x] = x"
| "join sep (x # y # ys) = x @ sep @ join sep (y # ys)"

text \<open>\<open>str(n)\<close> for an integer\<close>

fun digits_nat :: "nat \<Rightarrow> string" where
  "digits_nat n = (if n < 10 then [char_of (48 + n)] else digits_nat (n div 10) @ [char_of (48 + n mod 10)])"

definition str_int :: "int \<Rightarrow> string" where
  "str_int i = (if i < 0 then CHR ''-'' # digits_nat (nat (- i)) else digits_nat (nat i))"

section \<open>Regular-expression matching\<close>

text \<open>
  The patterns of the source are used with \<open>re.search\<close> only for the fact of a match, so
  a pattern is embedded as a matcher: from a text it returns the remainders left after
  every way the pattern matches at the head of the text. Literals are compared ignoring
  case where the source passes \<open>re.IGNORECASE\<close> (or upper-cases the text itself).
\<close>

type_synonym matcher = "string \<Rightarrow> string list"

definition lit :: "string \<Rightarrow> matcher" where
  "lit p s = (if startswith s p then [drop (length p) s] else [])"

definition lit_ci :: "string \<Rightarrow> matcher" where
  "lit_ci p s = (if startswith_ci s p then [drop (length p) s] else [])"

text \<open>\<open>c*\<close> and \<open>c+\<close> for a character class \<open>c\<close>\<close>

fun many :: "(char \<Rightarrow> bool) \<Rightarrow> matcher" where
  "many P [] = [[]]"
| "many P (c # cs) = (c # cs) # (if P c then many P cs else [])"

fun many1 :: "(char \<Rightarrow> bool) \<Rightarrow> matcher" where
  "many1 P [] = []"
| "many1 P (c # cs) = (if P c then many P cs else [])"

definition seq :: "matcher \<Rightarrow> matcher \<Rightarrow> matcher" where
  "seq m1 m2 s = concat (map m2 (m1 s))"

definition alt :: "matcher \<Rightarrow> matcher \<Rightarrow> matcher" where
  "alt m1 m2 s = m1 s @ m2 s"

definition matches_at :: "matcher \<Rightarrow> string \<Rightarrow> bool" where
  "matches_at m s = (m s \<noteq> [])"

text \<open>\<open>re.search(pattern, s)\<close> is not \<open>None\<close>\<close>

fun re_search :: "matcher \<Rightarrow> string \<Rightarrow> bool" where
  "re_search m [] = matches_at m []"
| "re_search m (c # cs) = (matches_at m (c # cs) \<or> re_search m cs)"

text \<open>
  \<open>re.search(r'\b' + re.escape(kw) + r'\b', s)\<close> for a keyword that begins and ends with
  a word character: the keyword stands at some position, the character before it (if
  any) is not a word character and neither is the character after it (if any).
  \<open>prev\<close> is whether the character before the current position is a word character.
\<close>

definition word_end :: "string \<Rightarrow> bool" where
  "word_end s = (case s of [] \<Rightarrow> True | c # cs \<Rightarrow> \<not> is_word c)"

fun search_word_from :: "bool \<Rightarrow> string \<Rightarrow> string \<Rightarrow> bool" where
  "search_word_from prev kw [] = False"
| "search_word_from prev kw (c # cs) =
     ((\<not> prev \<and> startswith (c # cs) kw \<and> word_end (drop (length kw) (c # cs)))
      \<or> search_word_from (is_word c) kw cs)"

definition search_word :: "string \<Rightarrow> string \<Rightarrow> bool" where
  "search_word kw s = search_word_from False kw s"

section \<open>Input sanitizer and response cleaner (core/safety.py)\<close>

definition is_ctrl :: "char \<Rightarrow> bool" where
  "is_ctrl c = (let n = (of_char c :: nat) in
     n \<le> 8 \<or> n = 11 \<or> n = 12 \<or> (14 \<le> n \<and> n \<le> 31) \<or> n = 127)"

definition sanitize_input :: "string \<Rightarrow> string" where
  "sanitize_input text =
     (if text = [] then []
      else let t1 = filter (\<lambda>c. \<not> is_ctrl c) text;
               t2 = (if length t1 > 2000 then take 2000 t1 else t1);
               t3 = join '' '' (split_ws t2)
           in strip t3)"

definition backtick :: char where
  "backtick = CHR 0x60"

text \<open>
  The tail of a fence matched by \<open>```(?:sql|json|mongodb)?\n?\<close> after the three
  backticks: the length of the optional language tag and the optional newline.
\<close>

definition fence_tail_len :: "string \<Rightarrow> nat" where
  "fence_tail_len rest =
     (let n = (if startswith (lower rest) ''sql'' then 3
               else if startswith (lower rest) ''json'' then 4
               else if startswith (lower rest) ''mongodb'' then 7
               else 0)
      in if startswith (drop n rest) [CHR 0x0A] then n + 1 else n)"

text \<open>
  \<open>re.sub\<close> of a fence pattern by the empty string: every leftmost, non-overlapping
  match is dropped. \<open>tail\<close> gives the length matched after the three backticks.
\<close>

fun sub_fence :: "(string \<Rightarrow> nat) \<Rightarrow> string \<Rightarrow> string" where
  "sub_fence tail (a # b # c # rest) =
     (if a = backtick \<and> b = backtick \<and> c = backtick
      then sub_fence tail (drop (tail rest) rest)
      else a # sub_fence tail (b # c # rest))"
| "sub_fence tail xs = xs"

definition prefixes_to_remove :: "string list" where
  "prefixes_to_remove =
     [''Here'' @ [CHR 0x27] @ ''s the SQL query:'',
      ''Here'' @ [CHR 0x27] @ ''s the query:'',
      ''The query is:'',
      ''Query:'',
      ''SQL:'',
      ''MongoDB:'']"

text \<open>The loop over the prefixes: it has no \<open>break\<close>, every prefix is tried in turn.\<close>

fun remove_prefixes :: "string list \<Rightarrow> string \<Rightarrow> string" where
  "remove_prefixes [] response = response"
| "remove_prefixes (p # ps) response =
     remove_prefixes ps
       (if startswith (lower response) (lower p)
        then strip (drop (length p) response) else response)"

definition clean_query_response :: "string \<Rightarrow> string" where
  "clean_query_response response =
     (if response = [] then []
      else let r1 = sub_fence fence_tail_len response;
               r2 = sub_fence (\<lambda>_. 0) r1;
               r3 = strip r2
           in remove_prefixes prefixes_to_remove r3)"

section \<open>JSON recognition (json.loads)\<close>

text \<open>
  The document-store validator only needs to know whether \<open>json.loads\<close> returns or
  raises \<open>JSONDecodeError\<close>. The decoder of the standard library is embedded as a
  recogniser of the language it accepts: the text is cut into tokens (strings with their
  escapes, numbers, the constants \<open>null\<close>, \<open>true\<close>, \<open>false\<close>, \<open>NaN\<close>, \<open>Infinity\<close>,
  \<open>-Infinity\<close>, punctuation; blanks, tabs, newlines and carriage returns between them
  are skipped) and the tokens are run through a pushdown automaton for values, arrays
  and objects. Limits of the interpreter (recursion depth, digits of an integer) are not
  part of the model.
\<close>

datatype json_token = TLBrace | TRBrace | TLBrack | TRBrack | TColon | TComma | TString | TScalar | TBad

definition json_ws :: "char \<Rightarrow> bool" where
  "json_ws c = (c = CHR '' '' \<or> c = CHR 0x09 \<or> c = CHR 0x0A \<or> c = CHR 0x0D)"

definition is_digit :: "char \<Rightarrow> bool" where
  "is_digit c = (let n = (of_char c :: nat) in 48 \<le> n \<and> n \<le> 57)"

definition is_hex :: "char \<Rightarrow> bool" where
  "is_hex c = (let n = (of_char c :: nat) in
     (48 \<le> n \<and> n \<le> 57) \<or> (65 \<le> n \<and> n \<le> 70) \<or> (97 \<le> n \<and> n \<le> 102))"

text \<open>
  The body of a string after its opening quote: the number of characters up to and
  including the closing quote, or \<open>None\<close> when the string is unterminated, holds a
  control character or an invalid escape.
\<close>

fun scan_string :: "string \<Rightarrow> nat option" where
  "scan_string [] = None"
| "scan_string (c # cs) =
     (if c = CHR 0x22 then Some 1
      else if c = CHR 0x5C then
        (case cs of
           [] \<Rightarrow> None
         | e # es \<Rightarrow>
             if e = CHR ''u'' then
               (if 4 \<le> length es \<and> list_all is_hex (take 4 es)
                then map_option (\<lambda>n. n + 6) (scan_string (drop 4 es)) else None)
             else if e \<in> set [CHR 0x22, CHR 0x5C, CHR ''/'', CHR ''b'', CHR ''f'', CHR ''n'', CHR ''r'', CHR ''t'']
             then map_option (\<lambda>n. n + 2) (scan_string es)
             else None)
      else if (of_char c :: nat) < 32 then None
      else map_option Suc (scan_string cs))"

definition digits_len :: "string \<Rightarrow> nat" where
  "digits_len s = length (takeWhile is_digit s)"

text \<open>\<open>-?(0|[1-9][0-9]*)(\.[0-9]+)?([eE][-+]?[0-9]+)?\<close>: the length matched, 0 for no match.\<close>

definition scan_int :: "string \<Rightarrow> nat" where
  "scan_int s = (case s of [] \<Rightarrow> 0
     | c # cs \<Rightarrow> if c = CHR ''0'' then 1 else if is_digit c then 1 + digits_len cs else 0)"

definition scan_frac :: "string \<Rightarrow> nat" where
  "scan_frac s = (case s of [] \<Rightarrow> 0
     | c # cs \<Rightarrow> if c = CHR ''.'' \<and> 0 < digits_len cs then 1 + digits_len cs else 0)"

definition scan_exp :: "string \<Rightarrow> nat" where
  "scan_exp s = (case s of [] \<Rightarrow> 0
     | c # cs \<Rightarrow>
         if c = CHR ''e'' \<or> c = CHR ''E'' then
           (let sg = (case cs of [] \<Rightarrow> 0 | d # ds \<Rightarrow> if d = CHR ''+'' \<or> d = CHR ''-'' then 1 else (0::nat));
                n = digits_len (drop sg cs)
            in if 0 < n then 1 + sg + n else 0)
         else 0)"

definition scan_number :: "string \<Rightarrow> nat" where
  "scan_number s =
     (let sg = (if startswith s ''-'' then 1 else (0::nat));
          i = scan_int (drop sg s)
      in if i = 0 then 0
         else let f = scan_frac (drop (sg + i) s);
                  e = scan_exp (drop (sg + i + f) s)
              in sg + i + f + e)"

fun json_tokens :: "string \<Rightarrow> json_token list" where
  "json_tokens [] = []"
| "json_tokens (c # cs) =
     (if json_ws c then json_tokens cs
      else if c = CHR ''{'' then TLBrace # json_tokens cs
      else if c = CHR ''}'' then TRBrace # json_tokens cs
      else if c = CHR ''['' then TLBrack # json_tokens cs
      else if c = CHR '']'' then TRBrack # json_tokens cs
      else if c = CHR '':'' then TColon # json_tokens cs
      else if c = CHR '','' then TComma # json_tokens cs
      else if c = CHR 0x22 then
        (if scan_string cs = None then [TBad]
         else TString # json_tokens (drop (the (scan_string cs)) cs))
      else if startswith (c # cs) ''null'' then TScalar # json_tokens (drop 3 cs)
      else if startswith (c # cs) ''true'' then TScalar # json_tokens (drop 3 cs)
      else if startswith (c # cs) ''false'' then TScalar # json_tokens (drop 4 cs)
      else if startswith (c # cs) ''NaN'' then TScalar # json_tokens (drop 2 cs)
      else if startswith (c # cs) ''Infinity'' then TScalar # json_tokens (drop 7 cs)
      else if startswith (c # cs) ''-Infinity'' then TScalar # json_tokens (drop 8 cs)
      else if scan_number (c # cs) = 0 then [TBad]
      else TScalar # json_tokens (drop (scan_number (c # cs) - 1) cs))"

datatype json_frame = InArray | InObject

datatype json_mode = PValue | PAfter | PKey | PColon | PArrStart | PObjStart

definition start_value :: "json_frame list \<Rightarrow> json_token \<Rightarrow> (json_mode \<times> json_frame list) option" where
  "start_value st t =
     (case t of
        TString \<Rightarrow> Some (PAfter, st)
      | TScalar \<Rightarrow> Some (PAfter, st)
      | TLBrack \<Rightarrow> Some (PArrStart, InArray # st)
      | TLBrace \<Rightarrow> Some (PObjStart, InObject # st)
      | _ \<Rightarrow> None)"

definition json_step :: "json_mode \<Rightarrow> json_frame list \<Rightarrow> json_token \<Rightarrow> (json_mode \<times> json_frame list) option" where
  "json_step m st t =
     (case m of
        PValue \<Rightarrow> start_value st t
      | PArrStart \<Rightarrow> (if t = TRBrack then Some (PAfter, tl st) else start_value st t)
      | PObjStart \<Rightarrow> (if t = TRBrace then Some (PAfter, tl st)
                      else if t = TString then Some (PColon, st) else None)
      | PKey \<Rightarrow> (if t = TString then Some (PColon, st) else None)
      | PColon \<Rightarrow> (if t = TColon then Some (PValue, st) else None)
      | PAfter \<Rightarrow>
          (case st of
             [] \<Rightarrow> None
           | InArray # r \<Rightarrow> (if t = TComma then Some (PValue, st)
                             else if t = TRBrack then Some (PAfter, r) else None)
           | InObject # r \<Rightarrow> (if t = TComma then Some (PKey, st)
                              else if t = TRBrace then Some (PAfter, r) else None)))"

text \<open>
  The automaton run over the tokens; \<open>None\<close> is the state after a token that the
  grammar does not allow. The text is accepted when one value is complete at its end.
\<close>

fun json_run :: "(json_mode \<times> json_frame list) option \<Rightarrow> json_token list \<Rightarrow> bool" where
  "json_run None ts = False"
| "json_run (Some (m, st)) [] = (m = PAfter \<and> st = [])"
| "json_run (Some (m, st)) (t # ts) = json_run (json_step m st t) ts"

text \<open>\<open>True\<close>: \<open>json.loads(s)\<close> returns; \<open>False\<close>: it raises \<open>JSONDecodeError\<close>.\<close>

definition json_loads :: "string \<Rightarrow> bool" where
  "json_loads s = json_run (Some (PValue, [])) (json_tokens s)"

section \<open>Safety validator (core/safety.py)\<close>

definition UNSAFE_SQL_KEYWORDS :: "string list" where
  "UNSAFE_SQL_KEYWORDS =
     [''CREATE'', ''ALTER'', ''DROP'', ''TRUNCATE'',
      ''INSERT'', ''UPDATE'', ''DELETE'', ''MERGE'', ''UPSERT'',
      ''GRANT'', ''REVOKE'',
      ''COMMIT'', ''ROLLBACK'', ''SAVEPOINT'',
      ''EXEC'', ''EXECUTE'', ''CALL'', ''PROCEDURE'', ''FUNCTION'',
      ''INDEX'', ''TRIGGER'', ''VIEW'', ''SCHEMA'', ''DATABASE'',
      ''USER'', ''ROLE'', ''LOGIN'', ''PASSWORD'',
      ''SLEEP'', ''WAITFOR'', ''BENCHMARK'', ''LOAD_FILE'', ''INTO OUTFILE'']"

definition UNSAFE_MONGO_OPERATIONS :: "string list" where
  "UNSAFE_MONGO_OPERATIONS =
     [''$out'', ''$merge'', ''$addFields'', ''$set'', ''$unset'',
      ''$replaceRoot'', ''$replaceWith'', ''insertOne'', ''insertMany'',
      ''updateOne'', ''updateMany'', ''deleteOne'', ''deleteMany'',
      ''replaceOne'', ''findOneAndUpdate'', ''findOneAndDelete'',
      ''findOneAndReplace'', ''bulkWrite'', ''createIndex'', ''dropIndex'']"

definition strict_mode_violation :: string where
  "strict_mode_violation = ''Only SELECT statements allowed in strict mode''"

definition sql_keyword_violation :: "string \<Rightarrow> string" where
  "sql_keyword_violation keyword = ''Unsafe SQL keyword detected: '' @ keyword"

definition mongo_operation_violation :: "string \<Rightarrow> string" where
  "mongo_operation_violation operation = ''Unsafe MongoDB operation detected: '' @ operation"

text \<open>
  \<open>;\s*(DROP|DELETE|INSERT|UPDATE)\<close>, \<open>UNION\s+ALL\s+SELECT\<close>, \<open>--\s*\w+\<close> and
  \<open>/\*.*?\*/\<close>, searched with \<open>re.IGNORECASE | re.DOTALL\<close>.
\<close>

definition injection_patterns :: "matcher list" where
  "injection_patterns =
     [seq (lit '';'') (seq (many is_space)
        (alt (lit_ci ''DROP'') (alt (lit_ci ''DELETE'') (alt (lit_ci ''INSERT'') (lit_ci ''UPDATE''))))),
      seq (lit_ci ''UNION'') (seq (many1 is_space) (seq (lit_ci ''ALL'') (seq (many1 is_space) (lit_ci ''SELECT'')))),
      seq (lit ''--'') (seq (many is_space) (many1 is_word)),
      seq (lit ''/*'') (seq (many (\<lambda>c. True)) (lit ''*/''))]"

definition validate_sql_query :: "string \<Rightarrow> bool \<Rightarrow> string list" where
  "validate_sql_query query strict =
     (let query_upper = upper query;
          v1 = (if strict then
                  (let trimmed_query = upper (strip query)
                   in if \<not> startswith trimmed_query ''SELECT'' \<and> \<not> startswith trimmed_query ''WITH''
                      then [strict_mode_violation] else [])
                else []);
          v2 = concat (map (\<lambda>keyword. if search_word keyword query_upper
                                       then [sql_keyword_violation keyword] else [])
                           UNSAFE_SQL_KEYWORDS);
          v3 = concat (map (\<lambda>pattern. if re_search pattern query
                                       then [''Potential SQL injection pattern detected''] else [])
                           injection_patterns)
      in v1 @ v2 @ v3)"

text \<open>
  The \<open>try\<close> block of the source holds both the parse and the scan for unsafe
  operations; when \<open>json.loads\<close> raises, control passes to the handler and the scan is
  never reached. The \<open>strict\<close> parameter is accepted and not used.
\<close>

definition validate_mongodb_query :: "string \<Rightarrow> bool \<Rightarrow> string list" where
  "validate_mongodb_query query strict =
     (let json_shaped = (startswith (strip query) ''['' \<or> startswith (strip query) ''{'')
      in if json_shaped \<and> \<not> json_loads query then [''Invalid MongoDB query format'']
         else (if json_shaped then []
               else if list_ex (\<lambda>op. contains (upper query) op)
                         [''INSERTONE'', ''INSERTMANY'', ''UPDATEONE'', ''UPDATEMANY'', ''DELETEONE'', ''DELETEMANY'']
                    then [''MongoDB write operations not allowed in strict mode''] else [])
              @ concat (map (\<lambda>operation. if contains query operation
                                            then [mongo_operation_violation operation] else [])
                            UNSAFE_MONGO_OPERATIONS))"

text \<open>
  \<open>xp_cmdshell\<close>, \<open>sp_executesql\<close>, \<open>eval\s*\(\<close>, \<open>exec\s*\(\<close>, \<open>system\s*\(\<close>, \<open>os\.\<close>,
  \<open>import\s+os\<close>, \<open>subprocess\<close>, searched with \<open>re.IGNORECASE\<close>.
\<close>

definition system_patterns :: "matcher list" where
  "system_patterns =
     [lit_ci ''xp_cmdshell'',
      lit_ci ''sp_executesql'',
      seq (lit_ci ''eval'') (seq (many is_space) (lit ''('')),
      seq (lit_ci ''exec'') (seq (many is_space) (lit ''('')),
      seq (lit_ci ''system'') (seq (many is_space) (lit ''('')),
      lit_ci ''os.'',
      seq (lit_ci ''import'') (seq (many1 is_space) (lit_ci ''os'')),
      lit_ci ''subprocess'']"

text \<open>
  \<open>LOAD_FILE\<close>, \<open>INTO\s+OUTFILE\<close>, \<open>LOAD\s+DATA\<close>, \<open>SELECT\s+.*\s+INTO\s+DUMPFILE\<close>,
  searched with \<open>re.IGNORECASE\<close>; the dot does not match a newline.
\<close>

definition file_patterns :: "matcher list" where
  "file_patterns =
     [lit_ci ''LOAD_FILE'',
      seq (lit_ci ''INTO'') (seq (many1 is_space) (lit_ci ''OUTFILE'')),
      seq (lit_ci ''LOAD'') (seq (many1 is_space) (lit_ci ''DATA'')),
      seq (lit_ci ''SELECT'') (seq (many1 is_space) (seq (many (\<lambda>c. c \<noteq> CHR 0x0A))
        (seq (many1 is_space) (seq (lit_ci ''INTO'') (seq (many1 is_space) (lit_ci ''DUMPFILE''))))))]"

definition validate_generic_safety :: "string \<Rightarrow> string list" where
  "validate_generic_safety query =
     concat (map (\<lambda>pattern. if re_search pattern query then [''System command detected''] else [])
                 system_patterns)
     @ concat (map (\<lambda>pattern. if re_search pattern query then [''File operation detected''] else [])
                   file_patterns)"

definition validate_query_safety :: "string \<Rightarrow> string \<Rightarrow> bool \<Rightarrow> bool \<times> string list" where
  "validate_query_safety query database_type strict =
     (if query = [] \<or> strip query = [] then (False, [''Empty query''])
      else let violations =
                 (if lower database_type = ''mongodb''
                  then validate_mongodb_query query strict
                  else validate_sql_query query strict)
                 @ validate_generic_safety query
           in (violations = [], violations))"

section \<open>Configuration (core/config.py)\<close>

definition SUPPORTED_DATABASES :: "string list" where
  "SUPPORTED_DATABASES = [''MySQL'', ''PostgreSQL'', ''SQL Server'', ''SQLite'', ''Oracle'', ''MongoDB'']"

definition ROW_LIMIT_MAX :: int where
  "ROW_LIMIT_MAX = 50000"

definition MODEL_CHAT :: string where
  "MODEL_CHAT = ''gpt-3.5-turbo''"

section \<open>Prompt construction and input validation (core/prompting.py)\<close>

definition newline :: string where
  "newline = [CHR 0x0A]"

definition build_system_prompt :: string where
  "build_system_prompt = join newline
     [''You are QueryForge, a professional SQL/NoSQL query generator.'',
      [],
      ''CRITICAL RULES:'',
      ''1. Generate ONLY the requested query - no explanations, markdown, or extra text'',
      ''2. Return valid, executable SQL/MongoDB aggregation pipelines'',
      ''3. Use proper syntax for the specified database type'',
      ''4. Include appropriate JOINs for related tables when needed'',
      ''5. Always add LIMIT clauses to prevent excessive data retrieval'',
      ''6. Use parameterized query patterns when possible'',
      ''7. Optimize for performance and readability'',
      [],
      ''SAFETY REQUIREMENTS:'',
      ''- In strict mode, generate ONLY SELECT statements'',
      ''- Never generate DDL (CREATE, DROP, ALTER) or DML (INSERT, UPDATE, DELETE) unless explicitly requested'',
      ''- Avoid system functions and administrative operations'',
      ''- Use proper escaping for string literals'',
      [],
      ''QUALITY STANDARDS:'',
      ''- Use consistent formatting and indentation'',
      ''- Include meaningful column aliases'',
      ''- Use appropriate aggregate functions'',
      ''- Handle NULL values appropriately'',
      ''- Follow database-specific best practices'']"

text \<open>A Python value used as a condition: \<open>None\<close> and the empty string are false.\<close>

definition truthy :: "string option \<Rightarrow> bool" where
  "truthy x = (case x of None \<Rightarrow> False | Some s \<Rightarrow> s \<noteq> [])"

definition build_user_prompt :: "string \<Rightarrow> string \<Rightarrow> string option \<Rightarrow> bool \<Rightarrow> int option \<Rightarrow> string" where
  "build_user_prompt question database_type schema_content strict row_limit =
     (let row_limit' = (case row_limit of None \<Rightarrow> 1000 | Some n \<Rightarrow> n);
          mode = (if strict then ''strict mode (SELECT-only)'' else ''flexible mode'');
          prompt_parts =
            [''Database Type: '' @ database_type, ''Question: '' @ question]
            @ (if truthy schema_content
               then [[], ''Database Schema:'', strip (the schema_content)] else [])
            @ [[], ''Mode: '' @ mode, ''Row Limit: '' @ str_int row_limit']
            @ (if lower database_type = ''mongodb'' then
                 [[],
                  ''Generate a MongoDB aggregation pipeline as a JSON array.'',
                  ''Use proper MongoDB operators and syntax.'',
                  ''Include $limit stage at the end.'']
               else if lower database_type \<in> set [''mysql'', ''postgresql'', ''sql server'', ''sqlite'', ''oracle''] then
                 [[],
                  ''Generate a '' @ database_type @ '' query.'',
                  ''Use appropriate SQL dialect features.'',
                  ''Include LIMIT/TOP clause for row limiting.'',
                  ''Use proper JOIN syntax when accessing multiple tables.'']
               else [])
            @ [[], ''Return ONLY the query without any explanation or formatting.'']
      in join newline prompt_parts)"

text \<open>
  \<open>;\s*(DROP|DELETE|INSERT|UPDATE)\<close>, \<open>EXEC\s*\(\<close>, \<open>xp_cmdshell\<close>, \<open>sp_executesql\<close>,
  searched with \<open>re.IGNORECASE\<close>.
\<close>

definition dangerous_patterns :: "matcher list" where
  "dangerous_patterns =
     [seq (lit '';'') (seq (many is_space)
        (alt (lit_ci ''DROP'') (alt (lit_ci ''DELETE'') (alt (lit_ci ''INSERT'') (lit_ci ''UPDATE''))))),
      seq (lit_ci ''EXEC'') (seq (many is_space) (lit ''('')),
      lit_ci ''xp_cmdshell'',
      lit_ci ''sp_executesql'']"

definition question_too_long :: string where
  "question_too_long = ''Question is too long (max 1000 characters)''"

definition validate_prompt_inputs :: "string \<Rightarrow> string \<Rightarrow> bool \<times> string" where
  "validate_prompt_inputs question database_type =
     (if question = [] \<or> strip question = [] then (False, ''Question cannot be empty'')
      else if length question > 1000 then (False, question_too_long)
      else if database_type = [] \<or> strip database_type = [] then (False, ''Database type must be specified'')
      else if list_ex (\<lambda>pattern. re_search pattern question) dangerous_patterns
           then (False, ''Question contains potentially unsafe content'')
      else (True, []))"

section \<open>Generation orchestrator (core/generator.py)\<close>

text \<open>
  The collaborators of the orchestrator are taken as parameters: whether the provider is
  configured, the provider's chat completion (given the model and the messages, each a
  role and a content; it returns the completion or raises, \<open>Inl\<close> carrying the text of
  the exception; the temperature is the constant 0.1 and is left out), and the schema
  store's lookup (the content of the stored schema, nothing, or an exception).
\<close>

record collaborators =
  is_configured :: bool
  chat_completion :: "string \<Rightarrow> (string \<times> string) list \<Rightarrow> string + string"
  load_schema :: "string \<Rightarrow> string + string option"

text \<open>What the orchestrator asks of its collaborators, in order.\<close>

datatype event =
    AskConfigured
  | LoadSchema string
  | ChatCompletion string "(string \<times> string) list"

definition unsupported_database_error :: "string \<Rightarrow> string" where
  "unsupported_database_error database_type =
     ''Unsupported database type: '' @ database_type @ ''. Supported: '' @ join '', '' SUPPORTED_DATABASES"

definition row_limit_low_error :: string where
  "row_limit_low_error = ''Row limit must be at least 1''"

definition row_limit_high_error :: string where
  "row_limit_high_error = ''Row limit cannot exceed '' @ str_int ROW_LIMIT_MAX"

text \<open>
  From the provider's answer to the result: the response is cleaned and, in strict mode,
  validated.
\<close>

definition finish_query :: "string \<Rightarrow> string \<Rightarrow> bool \<Rightarrow> string \<times> string option" where
  "finish_query response database_type strict =
     (let query = clean_query_response response
      in if strict then
           (case validate_query_safety query database_type strict of
              (is_safe, violations) \<Rightarrow>
                if \<not> is_safe
                then ([], Some (''Query contains unsafe operations: '' @ join ''; '' violations))
                else (query, None))
         else (query, None))"

text \<open>
  The body of the \<open>try\<close> block: the events so far, and either the exception that left
  the block (\<open>Inl\<close>) or the pair returned.
\<close>

definition generate_body ::
  "collaborators \<Rightarrow> string \<Rightarrow> string \<Rightarrow> string option \<Rightarrow> string option \<Rightarrow> string option
     \<Rightarrow> bool \<Rightarrow> int option \<Rightarrow> event list \<times> (string + string \<times> string option)" where
  "generate_body env question0 database_type model0 schema_text schema_id strict row_limit =
     (let question = sanitize_input question0 in
      case validate_prompt_inputs question database_type of
        (is_valid, error_msg) \<Rightarrow>
      if \<not> is_valid then ([], Inr ([], Some error_msg))
      else if database_type \<notin> set SUPPORTED_DATABASES
        then ([], Inr ([], Some (unsupported_database_error database_type)))
      else if \<not> is_configured env
        then ([AskConfigured], Inr ([], Some ''OpenAI API key not configured or invalid''))
      else if row_limit \<noteq> None \<and> the row_limit < 1
        then ([AskConfigured], Inr ([], Some row_limit_low_error))
      else if row_limit \<noteq> None \<and> the row_limit > ROW_LIMIT_MAX
        then ([AskConfigured], Inr ([], Some row_limit_high_error))
      else
        let model = (if truthy model0 then the model0 else MODEL_CHAT);
            lookup = (if truthy schema_id \<and> \<not> truthy schema_text
                      then Some (load_schema env (the schema_id)) else None);
            events = [AskConfigured] @ (if lookup = None then [] else [LoadSchema (the schema_id)])
        in case lookup of
             Some (Inl exn) \<Rightarrow> (events, Inl exn)
           | Some (Inr None) \<Rightarrow>
               (events, Inr ([], Some (''Schema with ID '' @ the schema_id @ '' not found'')))
           | _ \<Rightarrow>
               let schema_content = (case lookup of Some (Inr (Some content)) \<Rightarrow> Some content
                                      | _ \<Rightarrow> schema_text);
                   system_prompt = build_system_prompt;
                   user_prompt = build_user_prompt question database_type schema_content strict row_limit;
                   messages = [(''system'', system_prompt), (''user'', user_prompt)];
                   events' = events @ [ChatCompletion model messages]
               in case chat_completion env model messages of
                    Inl exn \<Rightarrow> (events', Inl exn)
                  | Inr response \<Rightarrow> (events', Inr (finish_query response database_type strict)))"

text \<open>The \<open>except Exception\<close> handler around the body.\<close>

definition generate_trace ::
  "collaborators \<Rightarrow> string \<Rightarrow> string \<Rightarrow> string option \<Rightarrow> string option \<Rightarrow> string option
     \<Rightarrow> bool \<Rightarrow> int option \<Rightarrow> event list \<times> (string \<times> string option)" where
  "generate_trace env question database_type model schema_text schema_id strict row_limit =
     (case generate_body env question database_type model schema_text schema_id strict row_limit of
        (events, Inl exn) \<Rightarrow> (events, ([], Some (''Generation error: '' @ exn)))
      | (events, Inr result) \<Rightarrow> (events, result))"

definition generate_query ::
  "collaborators \<Rightarrow> string \<Rightarrow> string \<Rightarrow> string option \<Rightarrow> string option \<Rightarrow> string option
     \<Rightarrow> bool \<Rightarrow> int option \<Rightarrow> string \<times> string option" where
  "generate_query env question database_type model schema_text schema_id strict row_limit =
     snd (generate_trace env question database_type model schema_text schema_id strict row_limit)"

definition provider_invoked :: "event list \<Rightarrow> bool" where
  "provider_invoked events = list_ex (\<lambda>e. case e of ChatCompletion m ms \<Rightarrow> True | _ \<Rightarrow> False) events"

section \<open>Auxiliary definitions for the statements\<close>

text \<open>
  Names for parts of the orchestrator that the statements refer to: the row limit lies in
  the accepted range, the model that is used, the messages sent to the provider, the
  outcome once the provider has answered; and two sample sets of collaborators, one
  whose provider answers and one whose provider raises.
\<close>

definition row_limit_ok :: "int option \<Rightarrow> bool" where
  "row_limit_ok rl = (case rl of None \<Rightarrow> True | Some n \<Rightarrow> \<not> n < 1 \<and> \<not> ROW_LIMIT_MAX < n)"

definition chosen_model :: "string option \<Rightarrow> string" where
  "chosen_model m = (if truthy m then the m else MODEL_CHAT)"

definition provider_messages :: "string \<Rightarrow> string \<Rightarrow> string option \<Rightarrow> bool \<Rightarrow> int option \<Rightarrow> (string \<times> string) list" where
  "provider_messages q db schema strict rl =
     [(''system'', build_system_prompt),
      (''user'', build_user_prompt (sanitize_input q) db schema strict rl)]"

definition after_call :: "string + string \<Rightarrow> string \<Rightarrow> bool \<Rightarrow> string + string \<times> string option" where
  "after_call answer db strict =
     (case answer of Inl x \<Rightarrow> Inl x | Inr response \<Rightarrow> Inr (finish_query response db strict))"

definition sample_env :: collaborators where
  "sample_env = \<lparr> is_configured = True,
                  chat_completion = (\<lambda>model messages. Inr ''SELECT 1''),
                  load_schema = (\<lambda>schema_id. Inr None) \<rparr>"


text \<open>Two sample questions: one padded with blanks, one a single long word.\<close>

definition padded_question :: string where
  "padded_question = replicate 1001 (CHR '' '') @ ''list users''"

definition long_question :: string where
  "long_question = replicate 1001 (CHR ''a'')"

text \<open>
  The query looks like JSON (what the document-store validator tests before parsing), and
  two sample queries: one that fails to parse and one that parses.
\<close>

definition json_shaped :: "string \<Rightarrow> bool" where
  "json_shaped query = (startswith (strip query) ''['' \<or> startswith (strip query) ''{'')"




section \<open>Properties of the safety validator\<close>

lemma lower_MongoDB: "lower ''MongoDB'' = ''mongodb''"
  by code_simp


text \<open>
  C9. For the document-store dialect the strict flag has no effect on the verdict:
  for every query, validating with strict true and with strict false gives the same
  pair of safety flag and violation list.
\<close>

theorem mongodb_strict_no_effect:
  "lower database_type = ''mongodb'' \<Longrightarrow>
     validate_query_safety query database_type True = validate_query_safety query database_type False"
  by (simp add: validate_query_safety_def validate_mongodb_query_def)

theorem mongodb_strict_no_effect_witness:
  "lower ''MongoDB'' = ''mongodb'' \<and>
   validate_query_safety ''db.users.insertOne({})'' ''MongoDB'' True
     = validate_query_safety ''db.users.insertOne({})'' ''MongoDB'' False"
  by (rule conjI [OF lower_MongoDB mongodb_strict_no_effect [OF lower_MongoDB]])




section \<open>Properties of the orchestrator\<close>

lemma finish_query_outcome:
  "snd (finish_query response database_type strict) = Some y \<Longrightarrow>
   fst (finish_query response database_type strict) = []"
  by (auto simp: finish_query_def Let_def split: prod.splits if_splits)

lemma generate_body_outcome:
  "generate_body env q db m st sid strict rl = (evs, Inr res) \<Longrightarrow> snd res = Some y \<Longrightarrow> fst res = []"
  unfolding generate_body_def Let_def
  by (auto split: prod.splits if_splits option.splits sum.splits dest: finish_query_outcome)

lemma generate_trace_invalid:
  "\<not> fst (validate_prompt_inputs (sanitize_input q) db) \<Longrightarrow>
   generate_trace env q db m st sid strict rl
     = ([], [], Some (snd (validate_prompt_inputs (sanitize_input q) db)))"
  unfolding generate_trace_def generate_body_def Let_def
  by (cases "validate_prompt_inputs (sanitize_input q) db") simp

lemma generate_trace_unsupported:
  "fst (validate_prompt_inputs (sanitize_input q) db) \<Longrightarrow> db \<notin> set SUPPORTED_DATABASES \<Longrightarrow>
   generate_trace env q db m st sid strict rl = ([], [], Some (unsupported_database_error db))"
  unfolding generate_trace_def generate_body_def Let_def
  by (cases "validate_prompt_inputs (sanitize_input q) db") simp

lemma strip_idem: "strip (strip x) = strip x"
proof -
  define y where "y = dropWhile is_space x"
  define z where "z = dropWhile is_space (rev y)"
  have sx: "strip x = rev z" by (simp add: strip_def y_def z_def)
  have a: "dropWhile is_space (rev z) = rev z"
  proof (cases "z = []")
    case True then show ?thesis by simp
  next
    case False
    have "rev y = takeWhile is_space (rev y) @ z" by (simp add: z_def)
    then have "last (rev y) = last z" using False by (metis last_appendR)
    moreover have "y \<noteq> []" using False by (auto simp: z_def)
    ultimately have "last z = hd y" by (simp add: last_rev)
    moreover have "\<not> is_space (hd y)" using \<open>y \<noteq> []\<close> unfolding y_def by (rule hd_dropWhile)
    ultimately have "\<not> is_space (hd (rev z))" using False by (simp add: hd_rev)
    then show ?thesis by (simp add: dropWhile_eq_self_iff)
  qed
  have b: "dropWhile is_space z = z" by (simp add: z_def)
  have "strip (rev z) = rev (dropWhile is_space (rev (dropWhile is_space (rev z))))"
    by (simp add: strip_def)
  also have "\<dots> = rev z" by (simp add: a b)
  finally show ?thesis by (simp add: sx)
qed

lemma sanitize_stripped: "strip (sanitize_input q) = sanitize_input q"
proof (cases "q = []")
  case True then show ?thesis by (simp add: sanitize_input_def strip_def)
next
  case False then show ?thesis by (simp add: sanitize_input_def Let_def strip_idem)
qed

lemma validate_msg_not_too_long:
  "length qq \<le> 1000 \<Longrightarrow> snd (validate_prompt_inputs qq db) \<noteq> question_too_long"
  by (simp add: validate_prompt_inputs_def question_too_long_def)

lemma finish_query_not_too_long:
  "snd (finish_query r db s) \<noteq> Some question_too_long"
  by (simp add: finish_query_def Let_def question_too_long_def split: prod.splits)

lemma finish_query_error:
  "snd (finish_query r db s) = Some e \<Longrightarrow> \<exists>v. e = ''Query contains unsafe operations: '' @ v"
  by (auto simp: finish_query_def Let_def split: prod.splits if_splits)

lemma generate_body_not_configured:
  "validate_prompt_inputs (sanitize_input q) db = (True, msg) \<Longrightarrow> db \<in> set SUPPORTED_DATABASES \<Longrightarrow>
   \<not> is_configured env \<Longrightarrow>
   generate_body env q db m st sid strict rl
     = ([AskConfigured], Inr ([], Some ''OpenAI API key not configured or invalid''))"
  by (simp add: generate_body_def)

lemma generate_body_row_limit_low:
  "validate_prompt_inputs (sanitize_input q) db = (True, msg) \<Longrightarrow> db \<in> set SUPPORTED_DATABASES \<Longrightarrow>
   is_configured env \<Longrightarrow> n < 1 \<Longrightarrow>
   generate_body env q db m st sid strict (Some n) = ([AskConfigured], Inr ([], Some row_limit_low_error))"
  by (simp add: generate_body_def)

lemma generate_body_row_limit_high:
  "validate_prompt_inputs (sanitize_input q) db = (True, msg) \<Longrightarrow> db \<in> set SUPPORTED_DATABASES \<Longrightarrow>
   is_configured env \<Longrightarrow> \<not> n < 1 \<Longrightarrow> ROW_LIMIT_MAX < n \<Longrightarrow>
   generate_body env q db m st sid strict (Some n) = ([AskConfigured], Inr ([], Some row_limit_high_error))"
  by (simp add: generate_body_def)

lemma generate_body_lookup_raises:
  "validate_prompt_inputs (sanitize_input q) db = (True, msg) \<Longrightarrow> db \<in> set SUPPORTED_DATABASES \<Longrightarrow>
   is_configured env \<Longrightarrow> row_limit_ok rl \<Longrightarrow> truthy sid \<Longrightarrow> \<not> truthy st \<Longrightarrow>
   load_schema env (the sid) = Inl x \<Longrightarrow>
   generate_body env q db m st sid strict rl = ([AskConfigured, LoadSchema (the sid)], Inl x)"
  by (cases rl) (simp_all add: generate_body_def row_limit_ok_def Let_def)

lemma generate_body_lookup_missing:
  "validate_prompt_inputs (sanitize_input q) db = (True, msg) \<Longrightarrow> db \<in> set SUPPORTED_DATABASES \<Longrightarrow>
   is_configured env \<Longrightarrow> row_limit_ok rl \<Longrightarrow> truthy sid \<Longrightarrow> \<not> truthy st \<Longrightarrow>
   load_schema env (the sid) = Inr None \<Longrightarrow>
   generate_body env q db m st sid strict rl
     = ([AskConfigured, LoadSchema (the sid)], Inr ([], Some (''Schema with ID '' @ the sid @ '' not found'')))"
  by (cases rl) (simp_all add: generate_body_def row_limit_ok_def Let_def)

lemma generate_body_call_direct:
  "validate_prompt_inputs (sanitize_input q) db = (True, msg) \<Longrightarrow> db \<in> set SUPPORTED_DATABASES \<Longrightarrow>
   is_configured env \<Longrightarrow> row_limit_ok rl \<Longrightarrow> \<not> (truthy sid \<and> \<not> truthy st) \<Longrightarrow>
   generate_body env q db m st sid strict rl
     = ([AskConfigured, ChatCompletion (chosen_model m) (provider_messages q db st strict rl)],
        after_call (chat_completion env (chosen_model m) (provider_messages q db st strict rl)) db strict)"
  by (cases rl; cases "truthy sid"; cases "truthy st";
      cases "chat_completion env (chosen_model m) (provider_messages q db st strict rl)")
     (simp_all add: generate_body_def row_limit_ok_def Let_def chosen_model_def
        provider_messages_def after_call_def)

lemma generate_body_call_stored:
  "validate_prompt_inputs (sanitize_input q) db = (True, msg) \<Longrightarrow> db \<in> set SUPPORTED_DATABASES \<Longrightarrow>
   is_configured env \<Longrightarrow> row_limit_ok rl \<Longrightarrow> truthy sid \<Longrightarrow> \<not> truthy st \<Longrightarrow>
   load_schema env (the sid) = Inr (Some content) \<Longrightarrow>
   generate_body env q db m st sid strict rl
     = ([AskConfigured, LoadSchema (the sid),
         ChatCompletion (chosen_model m) (provider_messages q db (Some content) strict rl)],
        after_call (chat_completion env (chosen_model m) (provider_messages q db (Some content) strict rl)) db strict)"
  by (cases rl; cases "chat_completion env (chosen_model m) (provider_messages q db (Some content) strict rl)")
     (simp_all add: generate_body_def row_limit_ok_def Let_def chosen_model_def
        provider_messages_def after_call_def)

lemma generate_body_cases:
  obtains
    (invalid) "\<not> fst (validate_prompt_inputs (sanitize_input q) db)"
      "generate_body env q db m st sid strict rl
         = ([], Inr ([], Some (snd (validate_prompt_inputs (sanitize_input q) db))))"
  | (unsupported) "fst (validate_prompt_inputs (sanitize_input q) db)" "db \<notin> set SUPPORTED_DATABASES"
      "generate_body env q db m st sid strict rl = ([], Inr ([], Some (unsupported_database_error db)))"
  | (not_configured) "fst (validate_prompt_inputs (sanitize_input q) db)" "db \<in> set SUPPORTED_DATABASES"
      "\<not> is_configured env"
      "generate_body env q db m st sid strict rl
         = ([AskConfigured], Inr ([], Some ''OpenAI API key not configured or invalid''))"
  | (low) n where "fst (validate_prompt_inputs (sanitize_input q) db)" "db \<in> set SUPPORTED_DATABASES"
      "is_configured env" "rl = Some n" "n < 1"
      "generate_body env q db m st sid strict rl = ([AskConfigured], Inr ([], Some row_limit_low_error))"
  | (high) n where "fst (validate_prompt_inputs (sanitize_input q) db)" "db \<in> set SUPPORTED_DATABASES"
      "is_configured env" "rl = Some n" "ROW_LIMIT_MAX < n"
      "generate_body env q db m st sid strict rl = ([AskConfigured], Inr ([], Some row_limit_high_error))"
  | (lookup_raises) x where "fst (validate_prompt_inputs (sanitize_input q) db)"
      "db \<in> set SUPPORTED_DATABASES" "is_configured env" "row_limit_ok rl"
      "truthy sid \<and> \<not> truthy st"
      "generate_body env q db m st sid strict rl = ([AskConfigured, LoadSchema (the sid)], Inl x)"
  | (lookup_missing) "fst (validate_prompt_inputs (sanitize_input q) db)"
      "db \<in> set SUPPORTED_DATABASES" "is_configured env" "row_limit_ok rl"
      "truthy sid \<and> \<not> truthy st"
      "generate_body env q db m st sid strict rl
         = ([AskConfigured, LoadSchema (the sid)],
            Inr ([], Some (''Schema with ID '' @ the sid @ '' not found'')))"
  | (call) evs schema where "fst (validate_prompt_inputs (sanitize_input q) db)"
      "db \<in> set SUPPORTED_DATABASES" "is_configured env" "row_limit_ok rl"
      "generate_body env q db m st sid strict rl
         = (evs @ [ChatCompletion (chosen_model m) (provider_messages q db schema strict rl)],
            after_call (chat_completion env (chosen_model m) (provider_messages q db schema strict rl)) db strict)"
proof (cases "validate_prompt_inputs (sanitize_input q) db")
  case (Pair ok msg)
  show thesis
  proof (cases ok)
    case False
    with Pair have "generate_body env q db m st sid strict rl
         = ([], Inr ([], Some (snd (validate_prompt_inputs (sanitize_input q) db))))"
      by (simp add: generate_body_def)
    with False Pair show thesis by (intro invalid) simp_all
  next
    case True
    with Pair have P: "validate_prompt_inputs (sanitize_input q) db = (True, msg)"
      and v: "fst (validate_prompt_inputs (sanitize_input q) db)" by simp_all
    show thesis
    proof (cases "db \<in> set SUPPORTED_DATABASES")
      case False
      with P have "generate_body env q db m st sid strict rl
          = ([], Inr ([], Some (unsupported_database_error db)))"
        by (simp add: generate_body_def)
      with v False show thesis by (rule unsupported)
    next
      case sup: True
      show thesis
      proof (cases "is_configured env")
        case False
        from v sup False generate_body_not_configured [OF P sup False] show thesis
          by (rule not_configured)
      next
        case conf: True
        show thesis
        proof (cases "row_limit_ok rl")
          case False
          then obtain n where n: "rl = Some n" and bad: "n < 1 \<or> ROW_LIMIT_MAX < n"
            by (auto simp: row_limit_ok_def split: option.splits)
          show thesis
          proof (cases "n < 1")
            case True
            have "generate_body env q db m st sid strict rl = ([AskConfigured], Inr ([], Some row_limit_low_error))"
              unfolding n by (rule generate_body_row_limit_low [OF P sup conf True])
            then show thesis by (rule low [OF v sup conf n True])
          next
            case False
            with bad have hi: "ROW_LIMIT_MAX < n" by simp
            have "generate_body env q db m st sid strict rl = ([AskConfigured], Inr ([], Some row_limit_high_error))"
              unfolding n by (rule generate_body_row_limit_high [OF P sup conf False hi])
            then show thesis by (rule high [OF v sup conf n hi])
          qed
        next
          case rok: True
          show thesis
          proof (cases "truthy sid \<and> \<not> truthy st")
            case False
            from generate_body_call_direct [OF P sup conf rok False, of m strict]
            have "generate_body env q db m st sid strict rl
              = ([AskConfigured] @ [ChatCompletion (chosen_model m) (provider_messages q db st strict rl)],
                 after_call (chat_completion env (chosen_model m) (provider_messages q db st strict rl)) db strict)"
              by simp
            with v sup conf rok show thesis by (rule call)
          next
            case lk: True
            then have ts: "truthy sid" and nst: "\<not> truthy st" by simp_all
            show thesis
            proof (cases "load_schema env (the sid)")
              case (Inl x)
              from v sup conf rok lk generate_body_lookup_raises [OF P sup conf rok ts nst Inl]
              show thesis by (rule lookup_raises)
            next
              case (Inr found)
              show thesis
              proof (cases found)
                case None
                with Inr have "load_schema env (the sid) = Inr None" by simp
                from v sup conf rok lk generate_body_lookup_missing [OF P sup conf rok ts nst this]
                show thesis by (rule lookup_missing)
              next
                case (Some content)
                with Inr have "load_schema env (the sid) = Inr (Some content)" by simp
                from generate_body_call_stored [OF P sup conf rok ts nst this, of m strict]
                have "generate_body env q db m st sid strict rl
                  = ([AskConfigured, LoadSchema (the sid)]
                       @ [ChatCompletion (chosen_model m) (provider_messages q db (Some content) strict rl)],
                     after_call (chat_completion env (chosen_model m)
                        (provider_messages q db (Some content) strict rl)) db strict)"
                  by simp
                with v sup conf rok show thesis by (rule call)
              qed
            qed
          qed
        qed
      qed
    qed
  qed
qed

lemma generate_query_body:
  "generate_query env q db m st sid strict rl =
     (case snd (generate_body env q db m st sid strict rl) of
        Inl exn \<Rightarrow> ([], Some (''Generation error: '' @ exn)) | Inr result \<Rightarrow> result)"
  by (simp add: generate_query_def generate_trace_def split: prod.splits sum.splits)

lemma generate_trace_events:
  "fst (generate_trace env q db m st sid strict rl) = fst (generate_body env q db m st sid strict rl)"
  by (simp add: generate_trace_def split: prod.splits sum.splits)

lemma after_call_outcome:
  "(case after_call answer db strict of
      Inl exn \<Rightarrow> ([], Some (''Generation error: '' @ exn)) | Inr result \<Rightarrow> result) = (a, Some e)
   \<Longrightarrow> a = [] \<and> ((\<exists>x. e = ''Generation error: '' @ x) \<or> (\<exists>x. e = ''Query contains unsafe operations: '' @ x))"
  by (cases answer) (auto simp: after_call_def finish_query_def Let_def split: prod.splits if_splits)



text \<open>
  C7, as stated, fails: a request whose dialect label is outside the supported set does
  not always get the unsupported-dialect error. With an empty question and the label
  Redis the input-shape validation fails first and its error is returned.
\<close>

theorem unsupported_dialect_empty_question_counterexample:
  "''Redis'' \<notin> set SUPPORTED_DATABASES
   \<and> generate_query sample_env [] ''Redis'' None None None True None = ([], Some ''Question cannot be empty'')
   \<and> ''Question cannot be empty'' \<noteq> unsupported_database_error ''Redis''"
  by code_simp

text \<open>
  C7, amended. Input-shape validation of the sanitized question runs first: when it
  fails its reason is returned, whatever the dialect label, and no collaborator is
  asked anything. When it passes and the dialect label is not in the supported set
  (case-sensitive membership) the unsupported-dialect error is returned and no
  collaborator is asked anything. In both cases the provider is never invoked for an
  unsupported label.
\<close>

theorem unsupported_dialect_rejected:
  "(\<not> fst (validate_prompt_inputs (sanitize_input q) db) \<longrightarrow>
      generate_trace env q db m st sid strict rl
        = ([], [], Some (snd (validate_prompt_inputs (sanitize_input q) db))))
   \<and> (fst (validate_prompt_inputs (sanitize_input q) db) \<and> db \<notin> set SUPPORTED_DATABASES \<longrightarrow>
      generate_trace env q db m st sid strict rl = ([], [], Some (unsupported_database_error db)))
   \<and> (db \<notin> set SUPPORTED_DATABASES \<longrightarrow>
      \<not> provider_invoked (fst (generate_trace env q db m st sid strict rl)))"
proof (intro conjI impI)
  assume "\<not> fst (validate_prompt_inputs (sanitize_input q) db)"
  then show "generate_trace env q db m st sid strict rl
        = ([], [], Some (snd (validate_prompt_inputs (sanitize_input q) db)))"
    by (rule generate_trace_invalid)
next
  assume "fst (validate_prompt_inputs (sanitize_input q) db) \<and> db \<notin> set SUPPORTED_DATABASES"
  then show "generate_trace env q db m st sid strict rl = ([], [], Some (unsupported_database_error db))"
    by (simp add: generate_trace_unsupported)
next
  assume u: "db \<notin> set SUPPORTED_DATABASES"
  show "\<not> provider_invoked (fst (generate_trace env q db m st sid strict rl))"
  proof (cases "fst (validate_prompt_inputs (sanitize_input q) db)")
    case True
    with u show ?thesis by (simp add: generate_trace_unsupported provider_invoked_def)
  next
    case False
    then show ?thesis by (simp add: generate_trace_invalid provider_invoked_def)
  qed
qed

theorem unsupported_dialect_rejected_witness:
  "(\<not> fst (validate_prompt_inputs (sanitize_input []) ''Redis'')
     \<and> generate_trace sample_env [] ''Redis'' None None None True None
        = ([], [], Some (snd (validate_prompt_inputs (sanitize_input []) ''Redis''))))
   \<and> ((fst (validate_prompt_inputs (sanitize_input ''list users'') ''Redis'')
        \<and> ''Redis'' \<notin> set SUPPORTED_DATABASES)
     \<and> generate_trace sample_env ''list users'' ''Redis'' None None None True None
        = ([], [], Some (unsupported_database_error ''Redis'')))
   \<and> (''Redis'' \<notin> set SUPPORTED_DATABASES
     \<and> \<not> provider_invoked (fst (generate_trace sample_env ''list users'' ''Redis'' None None None True None)))"
proof -
  have h1: "\<not> fst (validate_prompt_inputs (sanitize_input []) ''Redis'')" by code_simp
  have h2: "fst (validate_prompt_inputs (sanitize_input ''list users'') ''Redis'')
        \<and> ''Redis'' \<notin> set SUPPORTED_DATABASES" by code_simp
  have h3: "''Redis'' \<notin> set SUPPORTED_DATABASES" by code_simp
  note a = unsupported_dialect_rejected [of "[]" "''Redis''" sample_env None None None True None]
  note b = unsupported_dialect_rejected [of "''list users''" "''Redis''" sample_env None None None True None]
  show ?thesis
    by (rule conjI [OF conjI [OF h1 mp [OF conjunct1 [OF a] h1]]
              conjI [OF conjI [OF h2 mp [OF conjunct1 [OF conjunct2 [OF b]] h2]]
                        conjI [OF h3 mp [OF conjunct2 [OF conjunct2 [OF b]] h3]]]])
qed

lemma row_limit_errors_distinct_from_validation:
  "snd (validate_prompt_inputs qq db) \<noteq> row_limit_low_error
   \<and> snd (validate_prompt_inputs qq db) \<noteq> row_limit_high_error"
  by (simp add: validate_prompt_inputs_def question_too_long_def row_limit_low_error_def
        row_limit_high_error_def)

lemma row_limit_ok_simps:
  "\<not> row_limit_ok (Some 0)" "\<not> row_limit_ok (Some (ROW_LIMIT_MAX + 1))" "row_limit_ok (Some ROW_LIMIT_MAX)"
  by (simp_all add: row_limit_ok_def ROW_LIMIT_MAX_def)

lemma generate_query_error_of_bad_limit:
  assumes "\<not> row_limit_ok rl"
  shows "snd (generate_query env q db m st sid strict rl) \<noteq> None"
  using assms
  by (cases rule: generate_body_cases [of q db env m st sid strict rl])
     (simp_all add: generate_query_body)

lemma generate_query_ok_limit_error:
  assumes "row_limit_ok rl"
  shows "snd (generate_query env q db m st sid strict rl) \<noteq> Some row_limit_low_error
       \<and> snd (generate_query env q db m st sid strict rl) \<noteq> Some row_limit_high_error"
proof (cases rule: generate_body_cases [of q db env m st sid strict rl])
  case invalid
  then show ?thesis
    using row_limit_errors_distinct_from_validation [of "sanitize_input q" db]
    by (simp add: generate_query_body)
next
  case unsupported
  then show ?thesis
    by (simp add: generate_query_body unsupported_database_error_def row_limit_low_error_def
          row_limit_high_error_def)
next
  case not_configured
  then show ?thesis
    by (simp add: generate_query_body row_limit_low_error_def row_limit_high_error_def)
next
  case (low n)
  with assms show ?thesis by (simp add: row_limit_ok_def)
next
  case (high n)
  with assms show ?thesis by (simp add: row_limit_ok_def)
next
  case (lookup_raises x)
  then show ?thesis
    by (simp add: generate_query_body row_limit_low_error_def row_limit_high_error_def)
next
  case lookup_missing
  then show ?thesis
    by (simp add: generate_query_body row_limit_low_error_def row_limit_high_error_def)
next
  case (call evs schema)
  obtain a b where ab: "generate_query env q db m st sid strict rl = (a, b)" by force
  show ?thesis
  proof (cases b)
    case None with ab show ?thesis by simp
  next
    case (Some err)
    with ab call(5) have "(\<exists>x. err = ''Generation error: '' @ x) \<or> (\<exists>x. err = ''Query contains unsafe operations: '' @ x)"
      using after_call_outcome [of "chat_completion env (chosen_model m) (provider_messages q db schema strict rl)" db strict a err]
      by (simp add: generate_query_body)
    with ab Some show ?thesis
      by (auto simp: row_limit_low_error_def row_limit_high_error_def)
  qed
qed


text \<open>
  C8. Row-limit validation: a supplied row limit of 0 and one of ROW_LIMIT_MAX + 1 are
  rejected with an error (the row-limit error itself once the earlier checks have
  passed), and a row limit equal to ROW_LIMIT_MAX is accepted: the outcome is never a
  row-limit error, and when the earlier checks pass and no schema has to be looked up
  the provider is invoked.
\<close>

theorem row_limit_validation:
  "snd (generate_query env q db m st sid strict (Some 0)) \<noteq> None
   \<and> snd (generate_query env q db m st sid strict (Some (ROW_LIMIT_MAX + 1))) \<noteq> None
   \<and> snd (generate_query env q db m st sid strict (Some ROW_LIMIT_MAX)) \<noteq> Some row_limit_low_error
   \<and> snd (generate_query env q db m st sid strict (Some ROW_LIMIT_MAX)) \<noteq> Some row_limit_high_error
   \<and> (fst (validate_prompt_inputs (sanitize_input q) db) \<and> db \<in> set SUPPORTED_DATABASES
        \<and> is_configured env \<longrightarrow>
        generate_query env q db m st sid strict (Some 0) = ([], Some row_limit_low_error)
      \<and> generate_query env q db m st sid strict (Some (ROW_LIMIT_MAX + 1)) = ([], Some row_limit_high_error)
      \<and> (\<not> (truthy sid \<and> \<not> truthy st) \<longrightarrow>
           provider_invoked (fst (generate_trace env q db m st sid strict (Some ROW_LIMIT_MAX)))))"
proof (intro conjI impI)
  show "snd (generate_query env q db m st sid strict (Some 0)) \<noteq> None"
    by (rule generate_query_error_of_bad_limit [OF row_limit_ok_simps(1)])
  show "snd (generate_query env q db m st sid strict (Some (ROW_LIMIT_MAX + 1))) \<noteq> None"
    by (rule generate_query_error_of_bad_limit [OF row_limit_ok_simps(2)])
  show "snd (generate_query env q db m st sid strict (Some ROW_LIMIT_MAX)) \<noteq> Some row_limit_low_error"
    using generate_query_ok_limit_error [OF row_limit_ok_simps(3)] by blast
  show "snd (generate_query env q db m st sid strict (Some ROW_LIMIT_MAX)) \<noteq> Some row_limit_high_error"
    using generate_query_ok_limit_error [OF row_limit_ok_simps(3)] by blast
next
  assume pre: "fst (validate_prompt_inputs (sanitize_input q) db) \<and> db \<in> set SUPPORTED_DATABASES
        \<and> is_configured env"
  then obtain msg where P: "validate_prompt_inputs (sanitize_input q) db = (True, msg)"
    by (cases "validate_prompt_inputs (sanitize_input q) db") simp
  from pre have sup: "db \<in> set SUPPORTED_DATABASES" and conf: "is_configured env" by simp_all
  show "generate_query env q db m st sid strict (Some 0) = ([], Some row_limit_low_error)"
    using generate_body_row_limit_low [OF P sup conf, of 0 m st sid strict]
    by (simp add: generate_query_body)
  have "\<not> ROW_LIMIT_MAX + 1 < 1" "ROW_LIMIT_MAX < ROW_LIMIT_MAX + 1" by (simp_all add: ROW_LIMIT_MAX_def)
  then show "generate_query env q db m st sid strict (Some (ROW_LIMIT_MAX + 1)) = ([], Some row_limit_high_error)"
    using generate_body_row_limit_high [OF P sup conf, of "ROW_LIMIT_MAX + 1" m st sid strict]
    by (simp add: generate_query_body)
  assume "\<not> (truthy sid \<and> \<not> truthy st)"
  from generate_body_call_direct [OF P sup conf row_limit_ok_simps(3) this, of m strict]
  show "provider_invoked (fst (generate_trace env q db m st sid strict (Some ROW_LIMIT_MAX)))"
    by (simp add: generate_trace_events provider_invoked_def)
qed

theorem row_limit_validation_witness:
  "(fst (validate_prompt_inputs (sanitize_input ''list users'') ''MySQL'')
      \<and> ''MySQL'' \<in> set SUPPORTED_DATABASES \<and> is_configured sample_env)
   \<and> generate_query sample_env ''list users'' ''MySQL'' None None None True (Some 0)
        = ([], Some row_limit_low_error)
   \<and> generate_query sample_env ''list users'' ''MySQL'' None None None True (Some (ROW_LIMIT_MAX + 1))
        = ([], Some row_limit_high_error)
   \<and> \<not> (truthy None \<and> \<not> truthy None)
   \<and> provider_invoked (fst (generate_trace sample_env ''list users'' ''MySQL'' None None None True
        (Some ROW_LIMIT_MAX)))"
proof -
  have h1: "fst (validate_prompt_inputs (sanitize_input ''list users'') ''MySQL'')
      \<and> ''MySQL'' \<in> set SUPPORTED_DATABASES \<and> is_configured sample_env" by code_simp
  have h2: "\<not> (truthy None \<and> \<not> truthy None)" by (simp add: truthy_def)
  note t = row_limit_validation [of sample_env "''list users''" "''MySQL''" None None None True]
  note c = mp [OF conjunct2 [OF conjunct2 [OF conjunct2 [OF conjunct2 [OF t]]]] h1]
  show ?thesis
    by (rule conjI [OF h1 conjI [OF conjunct1 [OF c] conjI [OF conjunct1 [OF conjunct2 [OF c]]
          conjI [OF h2 mp [OF conjunct2 [OF conjunct2 [OF c]] h2]]]]])
qed

lemma split_acc_leading_spaces: "split_acc [] (replicate n (CHR '' '') @ xs) = split_acc [] xs"
  by (induction n) (simp_all add: is_space_def)

lemma sanitize_padded_question: "sanitize_input padded_question = ''list users''"
proof -
  have f: "filter (\<lambda>c. \<not> is_ctrl c) padded_question = padded_question"
    by (simp add: padded_question_def is_ctrl_def)
  have l: "length padded_question = 1011" by (simp add: padded_question_def)
  have "split_ws padded_question = split_ws ''list users''"
    by (simp add: split_ws_def padded_question_def split_acc_leading_spaces)
  moreover have "padded_question \<noteq> []" using l by auto
  moreover have "strip (join '' '' (split_ws ''list users'')) = ''list users''" by code_simp
  ultimately show ?thesis by (simp add: sanitize_input_def Let_def f l)
qed

text \<open>
  C10. The 1000-character limit of the question is enforced on the sanitized question:
  the too-long error is returned exactly when the sanitized question is longer than
  1000 characters, so a raw question longer than that is accepted by the length check
  whenever sanitization shrinks it to at most 1000 characters.
\<close>

theorem question_length_checked_after_sanitize:
  "(1000 < length (sanitize_input q) \<longrightarrow>
      generate_query env q db m st sid strict rl = ([], Some question_too_long))
   \<and> (length (sanitize_input q) \<le> 1000 \<longrightarrow>
      snd (generate_query env q db m st sid strict rl) \<noteq> Some question_too_long)"
proof (intro conjI impI)
  assume long: "1000 < length (sanitize_input q)"
  then have ne: "sanitize_input q \<noteq> []" by auto
  then have "strip (sanitize_input q) \<noteq> []" by (simp add: sanitize_stripped)
  with ne long have "validate_prompt_inputs (sanitize_input q) db = (False, question_too_long)"
    by (simp add: validate_prompt_inputs_def)
  then show "generate_query env q db m st sid strict rl = ([], Some question_too_long)"
    using generate_trace_invalid [of q db env m st sid strict rl] by (simp add: generate_query_def)
next
  assume short: "length (sanitize_input q) \<le> 1000"
  show "snd (generate_query env q db m st sid strict rl) \<noteq> Some question_too_long"
  proof (cases rule: generate_body_cases [of q db env m st sid strict rl])
    case invalid
    then show ?thesis
      using validate_msg_not_too_long [OF short, of db] by (simp add: generate_query_body)
  next
    case (call evs schema)
    obtain a b where ab: "generate_query env q db m st sid strict rl = (a, b)" by force
    show ?thesis
    proof (cases b)
      case None with ab show ?thesis by simp
    next
      case (Some err)
      with ab call(5) have "(\<exists>x. err = ''Generation error: '' @ x) \<or> (\<exists>x. err = ''Query contains unsafe operations: '' @ x)"
        using after_call_outcome [of "chat_completion env (chosen_model m) (provider_messages q db schema strict rl)" db strict a err]
        by (simp add: generate_query_body)
      with ab Some show ?thesis by (auto simp: question_too_long_def)
    qed
  qed (simp_all add: generate_query_body question_too_long_def unsupported_database_error_def
         row_limit_low_error_def row_limit_high_error_def)
qed

lemma split_acc_word: "split_acc w (replicate n (CHR ''a'')) = (if w = [] \<and> n = 0 then [] else [w @ replicate n (CHR ''a'')])"
  by (induction n arbitrary: w) (simp_all add: is_space_def replicate_app_Cons_same)

lemma strip_word: "strip (replicate n (CHR ''a'')) = replicate n (CHR ''a'')"
proof -
  have "dropWhile is_space (replicate n (CHR ''a'')) = replicate n (CHR ''a'')"
    by (cases n) (simp_all add: is_space_def)
  then show ?thesis by (simp add: strip_def)
qed

lemma sanitize_long_question: "sanitize_input long_question = long_question"
proof -
  have f: "filter (\<lambda>c. \<not> is_ctrl c) long_question = long_question"
    by (simp add: long_question_def is_ctrl_def)
  have l: "length long_question = 1001" by (simp add: long_question_def)
  have "long_question \<noteq> []" using l by auto
  moreover have "join '' '' (split_ws long_question) = long_question"
    by (simp add: split_ws_def long_question_def split_acc_word)
  moreover have "strip long_question = long_question"
    unfolding long_question_def by (rule strip_word)
  ultimately show ?thesis by (simp add: sanitize_input_def Let_def f l)
qed

theorem question_length_checked_after_sanitize_witness:
  "(1000 < length (sanitize_input long_question)
     \<and> generate_query sample_env long_question ''MySQL'' None None None True None
         = ([], Some question_too_long))
   \<and> (1000 < length padded_question \<and> length (sanitize_input padded_question) \<le> 1000
     \<and> snd (generate_query sample_env padded_question ''MySQL'' None None None True None)
         \<noteq> Some question_too_long)"
proof -
  have h0: "1000 < length (sanitize_input long_question)"
    by (simp add: sanitize_long_question) (simp add: long_question_def)
  have h1: "1000 < length padded_question" by (simp add: padded_question_def)
  have h2: "length (sanitize_input padded_question) \<le> 1000" by (simp add: sanitize_padded_question)
  note s = question_length_checked_after_sanitize [of long_question sample_env "''MySQL''" None None None True None]
  note t = question_length_checked_after_sanitize [of padded_question sample_env "''MySQL''" None None None True None]
  show ?thesis
    by (rule conjI [OF conjI [OF h0 mp [OF conjunct1 [OF s] h0]]
              conjI [OF h1 conjI [OF h2 mp [OF conjunct2 [OF t] h2]]]])
qed

section \<open>The scan for unsafe document-store operations\<close>











section \<open>The keyword denylist of the relational dialects\<close>













end
